theory Spec2Isabelle
  imports Complex_Main "HOL-Library.Multiset"
begin

section \<open>Python values used by main.py\<close>

text \<open>
  Python floats are modelled by the real numbers: every arithmetic operation is the
  exact one, so rounding is outside this development, and the numbers the program is
  given are finite. The range of a float is kept where the program can leave it: the
  squares and their sum in \<open>distance\<close>. \<^verbatim>\<open>math.pow\<close> raises OverflowError when its
  result is beyond \<open>float_max\<close>, and a sum beyond \<open>float_max\<close> is plus infinity, as is
  \<^verbatim>\<open>float("inf")\<close>, which the program writes itself: a distance is a real or plus
  infinity.

  Exceptions are values, with the message CPython 3 gives them. \<open>exn_str\<close> is
  \<^verbatim>\<open>str(e)\<close>.
\<close>

datatype exn =
    ValueError string
  | TypeError string
  | ZeroDivisionError string
  | OverflowError string
  | IndexError string
  | Exception string

fun exn_str :: "exn \<Rightarrow> string" where
  "exn_str (ValueError m) = m"
| "exn_str (TypeError m) = m"
| "exn_str (ZeroDivisionError m) = m"
| "exn_str (OverflowError m) = m"
| "exn_str (IndexError m) = m"
| "exn_str (Exception m) = m"

datatype dist = Fin real | PInf

fun dist_le :: "dist \<Rightarrow> dist \<Rightarrow> bool" where
  "dist_le (Fin a) (Fin b) = (a \<le> b)"
| "dist_le (Fin a) PInf = True"
| "dist_le PInf (Fin b) = False"
| "dist_le PInf PInf = True"

instantiation dist :: linorder
begin

definition less_eq_dist :: "dist \<Rightarrow> dist \<Rightarrow> bool" where
  "less_eq_dist a b = dist_le a b"

definition less_dist :: "dist \<Rightarrow> dist \<Rightarrow> bool" where
  "less_dist a b = (dist_le a b \<and> \<not> dist_le b a)"

instance
proof
  fix x y z :: dist
  show "(x < y) = (x \<le> y \<and> \<not> y \<le> x)"
    by (simp add: less_dist_def less_eq_dist_def)
  show "x \<le> x"
    by (cases x) (simp_all add: less_eq_dist_def)
  show "x \<le> y \<Longrightarrow> y \<le> z \<Longrightarrow> x \<le> z"
    by (cases x; cases y; cases z) (simp_all add: less_eq_dist_def)
  show "x \<le> y \<Longrightarrow> y \<le> x \<Longrightarrow> x = y"
    by (cases x; cases y) (simp_all add: less_eq_dist_def)
  show "x \<le> y \<or> y \<le> x"
    by (cases x; cases y) (auto simp add: less_eq_dist_def)
qed

end

section \<open>The math module\<close>

text \<open>
  \<^verbatim>\<open>math.sqrt\<close> raises ValueError below zero, float division raises
  ZeroDivisionError on a zero divisor, and so does the float remainder \<^verbatim>\<open>%\<close>,
  whose result otherwise has the sign of the divisor: \<open>x - y * floor (x / y)\<close>.
  \<open>float_max\<close> is the largest finite double. \<open>float_add\<close> adds two floats that are
  not negative, and the square root of plus infinity is plus infinity.
\<close>

definition math_radians :: "real \<Rightarrow> real" where
  "math_radians x = x * (pi / 180)"

definition math_degrees :: "real \<Rightarrow> real" where
  "math_degrees x = x * (180 / pi)"

definition float_max :: real where
  "float_max = (2 ^ 53 - 1) * 2 ^ 971"

definition math_pow2 :: "real \<Rightarrow> exn + real" where
  \<comment> \<open>\<^verbatim>\<open>math.pow(x, 2)\<close>\<close>
  "math_pow2 x =
     (if float_max < x ^ 2 then Inl (OverflowError ''math range error'') else Inr (x ^ 2))"

fun float_add :: "dist \<Rightarrow> dist \<Rightarrow> dist" where
  "float_add (Fin a) (Fin b) = (if float_max < a + b then PInf else Fin (a + b))"
| "float_add PInf b = PInf"
| "float_add a PInf = PInf"

definition math_sqrt :: "real \<Rightarrow> exn + real" where
  "math_sqrt x = (if x < 0 then Inl (ValueError ''math domain error'') else Inr (sqrt x))"

fun math_sqrt_dist :: "dist \<Rightarrow> exn + dist" where
  "math_sqrt_dist PInf = Inr PInf"
| "math_sqrt_dist (Fin x) = (case math_sqrt x of Inl e \<Rightarrow> Inl e | Inr s \<Rightarrow> Inr (Fin s))"

definition float_div :: "real \<Rightarrow> real \<Rightarrow> exn + real" where
  "float_div a b =
     (if b = 0 then Inl (ZeroDivisionError ''float division by zero'') else Inr (a / b))"

definition float_mod :: "real \<Rightarrow> real \<Rightarrow> exn + real" where
  "float_mod x y =
     (if y = 0 then Inl (ZeroDivisionError ''float modulo'')
      else Inr (x - y * of_int \<lfloor>x / y\<rfloor>))"

definition math_atan2 :: "real \<Rightarrow> real \<Rightarrow> real" where
  \<comment> \<open>the angle of the point \<open>(x, y)\<close>, in \<open>(-pi, pi]\<close>, and 0 at the origin\<close>
  "math_atan2 y x =
     (if 0 < x then arctan (y / x)
      else if x < 0 \<and> 0 \<le> y then arctan (y / x) + pi
      else if x < 0 then arctan (y / x) - pi
      else if 0 < y then pi / 2
      else if y < 0 then - (pi / 2)
      else 0)"

section \<open>distance, pointToCartesian, calculate_heading_to_aircraft\<close>

definition distance :: "real \<Rightarrow> real \<Rightarrow> real \<Rightarrow> real \<Rightarrow> real \<Rightarrow> real \<Rightarrow> exn + dist" where
  "distance x1 y1 z1 x2 y2 z2 =
     (case math_pow2 (x2 - x1) of
        Inl e \<Rightarrow> Inl e
      | Inr a \<Rightarrow>
          (case math_pow2 (y2 - y1) of
             Inl e \<Rightarrow> Inl e
           | Inr b \<Rightarrow>
               (case math_pow2 (z2 - z1) of
                  Inl e \<Rightarrow> Inl e
                | Inr c \<Rightarrow> math_sqrt_dist (float_add (float_add (Fin a) (Fin b)) (Fin c)))))"

definition N :: "real \<Rightarrow> exn + real" where
  \<comment> \<open>the inner function of pointToCartesian\<close>
  "N phi =
     (case math_pow2 (sin phi) of
        Inl e \<Rightarrow> Inl e
      | Inr p \<Rightarrow>
          (case math_sqrt (1 - 0.006694379990197619 * p) of
             Inl e \<Rightarrow> Inl e
           | Inr s \<Rightarrow> float_div 6378137 s))"

definition pointToCartesian :: "real \<Rightarrow> real \<Rightarrow> real \<Rightarrow> exn + (real \<times> real \<times> real)" where
  "pointToCartesian longitude_deg latitude_deg altitude =
     (let longitude = math_radians longitude_deg;
          latitude = math_radians latitude_deg;
          altitude_m = altitude * 0.3048
      in case N latitude of
           Inl e \<Rightarrow> Inl e
         | Inr n1 \<Rightarrow>
             (let x = (n1 + altitude_m) * cos latitude * cos longitude
              in case N latitude of
                   Inl e \<Rightarrow> Inl e
                 | Inr n2 \<Rightarrow>
                     (let y = (n2 + altitude_m) * cos latitude * sin longitude
                      in case N latitude of
                           Inl e \<Rightarrow> Inl e
                         | Inr n3 \<Rightarrow>
                             (let z = (0.9933056200098024 * n3 + altitude_m) * sin latitude
                              in Inr (x, y, z)))))"

definition calculate_heading_to_aircraft :: "real \<Rightarrow> real \<Rightarrow> real \<Rightarrow> real \<Rightarrow> exn + real" where
  "calculate_heading_to_aircraft user_lat user_lon aircraft_lat aircraft_lon =
     (let user_lat_rad = math_radians user_lat;
          user_lon_rad = math_radians user_lon;
          aircraft_lat_rad = math_radians aircraft_lat;
          aircraft_lon_rad = math_radians aircraft_lon;
          dlon = aircraft_lon_rad - user_lon_rad;
          y = sin dlon * cos aircraft_lat_rad;
          x = cos user_lat_rad * sin aircraft_lat_rad
              - sin user_lat_rad * cos aircraft_lat_rad * cos dlon;
          bearing_rad = math_atan2 y x;
          bearing_deg = math_degrees bearing_rad
      in float_mod (bearing_deg + 360) 360)"

section \<open>The values of a flight's attributes\<close>

text \<open>
  An attribute of a flight object holds any Python value: a number, a text (the client
  library writes \<^verbatim>\<open>'N/A'\<close> where it has no detail) or \<^verbatim>\<open>None\<close>. \<open>math_arg\<close> is
  what a function of the math module does with its argument, \<open>times_float\<close> what
  \<^verbatim>\<open>v * 0.3048\<close> does with \<open>v\<close>: both raise TypeError on a value that is no number.
  The functions below are pointToCartesian and calculate_heading_to_aircraft called on
  such values, as get_flights_with_distances calls them on the entries of the
  dictionary: the argument checks come in the order of the source's statements.
\<close>

datatype attr_val = Num real | Text string | NoneVal

definition quote :: string where
  "quote = [CHR 0x27]"

fun math_arg :: "attr_val \<Rightarrow> exn + real" where
  "math_arg (Num x) = Inr x"
| "math_arg (Text s) = Inl (TypeError ''must be real number, not str'')"
| "math_arg NoneVal = Inl (TypeError ''must be real number, not NoneType'')"

fun times_float :: "attr_val \<Rightarrow> exn + real" where
  \<comment> \<open>the operand of \<^verbatim>\<open>altitude * 0.3048\<close>\<close>
  "times_float (Num x) = Inr x"
| "times_float (Text s) =
     Inl (TypeError (''can'' @ quote @ ''t multiply sequence by non-int of type ''
            @ quote @ ''float'' @ quote))"
| "times_float NoneVal =
     Inl (TypeError (''unsupported operand type(s) for *: '' @ quote @ ''NoneType'' @ quote
            @ '' and '' @ quote @ ''float'' @ quote))"

definition pointToCartesian_dyn ::
  "attr_val \<Rightarrow> attr_val \<Rightarrow> attr_val \<Rightarrow> exn + (real \<times> real \<times> real)" where
  "pointToCartesian_dyn longitude latitude altitude =
     (case math_arg longitude of
        Inl e \<Rightarrow> Inl e
      | Inr lon \<Rightarrow>
          (case math_arg latitude of
             Inl e \<Rightarrow> Inl e
           | Inr lat \<Rightarrow>
               (case times_float altitude of
                  Inl e \<Rightarrow> Inl e
                | Inr alt \<Rightarrow> pointToCartesian lon lat alt)))"

definition calculate_heading_to_aircraft_dyn ::
  "real \<Rightarrow> real \<Rightarrow> attr_val \<Rightarrow> attr_val \<Rightarrow> exn + real" where
  "calculate_heading_to_aircraft_dyn user_lat user_lon aircraft_lat aircraft_lon =
     (case math_arg aircraft_lat of
        Inl e \<Rightarrow> Inl e
      | Inr lat \<Rightarrow>
          (case math_arg aircraft_lon of
             Inl e \<Rightarrow> Inl e
           | Inr lon \<Rightarrow> calculate_heading_to_aircraft user_lat user_lon lat lon))"

section \<open>The collaborators: the builtins and the flight-data gateway\<close>

text \<open>
  What main.py calls and does not define is a parameter of the model.

  The builtins: \<^verbatim>\<open>float(s)\<close> on a string (\<open>None\<close> when it raises ValueError),
  \<^verbatim>\<open>str(x)\<close> of a number as an f-string prints it, and \<^verbatim>\<open>format(x, ".nf")\<close>.

  The gateway is the FlightRadar24API client; building the client is part of the call
  that follows it. \<open>get_flight_details\<close> stands for \<^verbatim>\<open>get_flight_details\<close> followed
  by \<^verbatim>\<open>set_flight_details\<close>: the attributes the flight object has afterwards, or
  the exception either of them raises. An attribute the object lacks is \<open>None\<close>; one
  it has is \<open>Some\<close> value. \<open>flight_str\<close> is \<^verbatim>\<open>str(flight)\<close>.
\<close>

record builtins =
  float_of_str :: "string \<Rightarrow> real option"
  str_of_num :: "real \<Rightarrow> string"
  format_f :: "nat \<Rightarrow> real \<Rightarrow> string"

record flight_attrs =
  origin_airport_name :: "attr_val option"
  destination_airport_name :: "attr_val option"
  airline_name :: "attr_val option"
  aircraft_model :: "attr_val option"
  flight_altitude :: "attr_val option"
  flight_latitude :: "attr_val option"
  flight_longitude :: "attr_val option"
  flight_heading :: "attr_val option"

record ('b, 'f) gateway =
  get_bounds_by_point :: "real \<Rightarrow> real \<Rightarrow> real \<Rightarrow> exn + 'b"
  get_flights :: "'b \<Rightarrow> exn + 'f list"
  get_flight_details :: "'f \<Rightarrow> exn + flight_attrs"
  flight_str :: "'f \<Rightarrow> string"

section \<open>get_flight_data\<close>

text \<open>
  The dictionary get_flight_data returns, one field per key: \<open>source\<close>,
  \<open>destination\<close>, \<open>airline\<close>, \<open>aircraft_type\<close>, and \<open>fd_altitude\<close>,
  \<open>fd_latitude\<close>, \<open>fd_longitude\<close>, \<open>fd_heading\<close> for the keys
  \<^verbatim>\<open>"altitude"\<close>, \<^verbatim>\<open>"latitude"\<close>, \<^verbatim>\<open>"longitude"\<close>, \<^verbatim>\<open>"heading"\<close>.
\<close>

record flight_data =
  source :: attr_val
  destination :: attr_val
  airline :: attr_val
  aircraft_type :: attr_val
  fd_altitude :: attr_val
  fd_latitude :: attr_val
  fd_longitude :: attr_val
  fd_heading :: attr_val

definition getattr :: "'a option \<Rightarrow> 'a \<Rightarrow> 'a" where
  \<comment> \<open>\<^verbatim>\<open>getattr(flight, name, default)\<close>, on the attribute's value if there is one\<close>
  "getattr attr dflt = (case attr of None \<Rightarrow> dflt | Some v \<Rightarrow> v)"

definition get_flight_data :: "('b, 'f) gateway \<Rightarrow> 'f \<Rightarrow> flight_data option" where
  "get_flight_data gw flight =
     (case get_flight_details gw flight of
        Inl e \<Rightarrow> None
      | Inr flight' \<Rightarrow>
          Some \<lparr> source = getattr (origin_airport_name flight') (Text ''Unknown''),
                 destination = getattr (destination_airport_name flight') (Text ''Unknown''),
                 airline = getattr (airline_name flight') (Text ''Unknown''),
                 aircraft_type = getattr (aircraft_model flight') (Text ''Unknown''),
                 fd_altitude = getattr (flight_altitude flight') (Num 0),
                 fd_latitude = getattr (flight_latitude flight') (Num 0),
                 fd_longitude = getattr (flight_longitude flight') (Num 0),
                 fd_heading = getattr (flight_heading flight') (Num 0) \<rparr>)"

section \<open>get_flights_with_distances\<close>

text \<open>
  An element of \<^verbatim>\<open>aircraft_data\<close> is a 3-tuple. Its first component is a float, its
  second the dictionary or \<^verbatim>\<open>None\<close>, its third a float or a string.
\<close>

datatype float_or_str = Float real | Str string

type_synonym entry = "dist \<times> flight_data option \<times> float_or_str"

fun flights_loop ::
  "('b, 'f) gateway \<Rightarrow> real \<times> real \<times> real \<Rightarrow> real \<Rightarrow> real \<Rightarrow> 'f list \<Rightarrow> entry list
     \<Rightarrow> exn + entry list" where
  "flights_loop gw user lat lon [] aircraft_data = Inr aircraft_data"
| "flights_loop gw user lat lon (flight # flights) aircraft_data =
     (case get_flight_data gw flight of
        None \<Rightarrow>
          flights_loop gw user lat lon flights
            (aircraft_data @ [(PInf, None, Str (''Error processing flight '' @ flight_str gw flight))])
      | Some fd \<Rightarrow>
          (case pointToCartesian_dyn (fd_longitude fd) (fd_latitude fd) (fd_altitude fd) of
             Inl e \<Rightarrow> Inl e
           | Inr (aircraft_x, aircraft_y, aircraft_z) \<Rightarrow>
               (case user of (user_x, user_y, user_z) \<Rightarrow>
                  (case distance user_x user_y user_z aircraft_x aircraft_y aircraft_z of
                     Inl e \<Rightarrow> Inl e
                   | Inr d \<Rightarrow>
                       (case calculate_heading_to_aircraft_dyn lat lon (fd_latitude fd)
                               (fd_longitude fd) of
                          Inl e \<Rightarrow> Inl e
                        | Inr heading_to_aircraft \<Rightarrow>
                            flights_loop gw user lat lon flights
                              (aircraft_data @ [(d, Some fd, Float heading_to_aircraft)]))))))"

definition flights_try ::
  "('b, 'f) gateway \<Rightarrow> real \<Rightarrow> real \<Rightarrow> real \<Rightarrow> real \<Rightarrow> exn + entry list" where
  \<comment> \<open>the body of the try block\<close>
  "flights_try gw lat lon alt radius_m =
     (case pointToCartesian lon lat alt of
        Inl e \<Rightarrow> Inl e
      | Inr user \<Rightarrow>
          (case get_bounds_by_point gw lat lon radius_m of
             Inl e \<Rightarrow> Inl e
           | Inr bounds \<Rightarrow>
               (case get_flights gw bounds of
                  Inl e \<Rightarrow> Inl e
                | Inr flights \<Rightarrow> flights_loop gw user lat lon flights [])))"

definition get_flights_with_distances ::
  "('b, 'f) gateway \<Rightarrow> real \<Rightarrow> real \<Rightarrow> real \<Rightarrow> real \<Rightarrow> exn + entry list" where
  "get_flights_with_distances gw lat lon alt radius_m =
     (case flights_try gw lat lon alt radius_m of
        Inl e \<Rightarrow> Inl (Exception (''Error fetching flight data: '' @ exn_str e))
      | Inr aircraft_data \<Rightarrow> Inr aircraft_data)"

section \<open>validate_location_params\<close>

text \<open>
  \<^verbatim>\<open>request.args\<close> maps a parameter name to its text. \<^verbatim>\<open>float\<close> raises TypeError
  on \<^verbatim>\<open>None\<close> and ValueError on a text that is no number; the function catches both
  alike, so \<open>py_float\<close> only says whether it raised.
\<close>

definition py_float :: "builtins \<Rightarrow> string option \<Rightarrow> real option" where
  "py_float bi v = (case v of None \<Rightarrow> None | Some s \<Rightarrow> float_of_str bi s)"

definition validate_location_params ::
  "builtins \<Rightarrow> (string \<rightharpoonup> string) \<Rightarrow> exn + (real \<times> real \<times> real)" where
  "validate_location_params bi args =
     (case py_float bi (args ''longitude'') of
        None \<Rightarrow> Inl (ValueError ''Invalid longitude, latitude, or altitude values'')
      | Some lon \<Rightarrow>
          (case py_float bi (args ''latitude'') of
             None \<Rightarrow> Inl (ValueError ''Invalid longitude, latitude, or altitude values'')
           | Some lat \<Rightarrow>
               (case (case args ''altitude'' of None \<Rightarrow> Some 0 | Some s \<Rightarrow> py_float bi (Some s)) of
                  None \<Rightarrow> Inl (ValueError ''Invalid longitude, latitude, or altitude values'')
                | Some alt \<Rightarrow> Inr (lon, lat, alt))))"

section \<open>The two routes\<close>

text \<open>A response is the body, the status and the headers the view function returns.\<close>

type_synonym response = "string \<times> nat \<times> (string \<times> string) list"

fun error_response :: "exn \<Rightarrow> response" where
  \<comment> \<open>the two except clauses of a route\<close>
  "error_response (ValueError m) = (''Error: '' @ m, 400, [])"
| "error_response e = (''Error: '' @ exn_str e, 500, [])"

definition text_plain :: "(string \<times> string) list" where
  "text_plain = [(''Content-Type'', ''text/plain'')]"

definition sort_by_distance :: "(dist \<times> 'a) list \<Rightarrow> (dist \<times> 'a) list" where
  \<comment> \<open>\<^verbatim>\<open>xs.sort(key=lambda x: x[0])\<close>: list.sort is stable and ascending\<close>
  "sort_by_distance xs = sort_key fst xs"

definition degree_sign :: string where
  \<comment> \<open>U+00B0, in UTF-8\<close>
  "degree_sign = [CHR 0xC2, CHR 0xB0]"

fun dist_div :: "dist \<Rightarrow> real \<Rightarrow> dist" where
  "dist_div (Fin d) k = Fin (d / k)"
| "dist_div PInf k = PInf"

fun format_f_dist :: "builtins \<Rightarrow> nat \<Rightarrow> dist \<Rightarrow> string" where
  "format_f_dist bi n (Fin d) = format_f bi n d"
| "format_f_dist bi n PInf = ''inf''"

fun str_of_val :: "builtins \<Rightarrow> attr_val \<Rightarrow> string" where
  \<comment> \<open>a value inside an f-string\<close>
  "str_of_val bi (Num x) = str_of_num bi x"
| "str_of_val bi (Text s) = s"
| "str_of_val bi NoneVal = ''None''"

definition aircraft_info :: "builtins \<Rightarrow> dist \<Rightarrow> flight_data \<Rightarrow> real \<Rightarrow> string" where
  "aircraft_info bi dist_km fd heading_to_aircraft =
     ''Aircraft: '' @ str_of_val bi (aircraft_type fd) @ '' | Airline: ''
     @ str_of_val bi (airline fd) @ '' | From: '' @ str_of_val bi (source fd)
     @ '' | To: '' @ str_of_val bi (destination fd)
     @ '' | Altitude: '' @ str_of_val bi (fd_altitude fd) @ ''ft | Heading: ''
     @ str_of_val bi (fd_heading fd) @ degree_sign @ '' | Distance: ''
     @ format_f_dist bi 2 dist_km @ ''km | Heading to Aircraft From My Location: ''
     @ format_f bi 0 heading_to_aircraft @ degree_sign"

fun output_loop :: "builtins \<Rightarrow> entry list \<Rightarrow> float_or_str list \<Rightarrow> exn + float_or_str list" where
  "output_loop bi [] output_strings = Inr output_strings"
| "output_loop bi ((d, None, heading_to_aircraft) # rest) output_strings =
     output_loop bi rest (output_strings @ [heading_to_aircraft])"
| "output_loop bi ((d, Some fd, Str s) # rest) output_strings =
     Inl (ValueError (''Unknown format code '' @ quote @ ''f'' @ quote
            @ '' for object of type '' @ quote @ ''str'' @ quote))"
| "output_loop bi ((d, Some fd, Float heading_to_aircraft) # rest) output_strings =
     output_loop bi rest
       (output_strings @ [Str (aircraft_info bi (dist_div d 1000) fd heading_to_aircraft)])"

fun digit_str :: "nat \<Rightarrow> string" where
  "digit_str n =
     (if n < 10 then [char_of (48 + n)]
      else digit_str (n div 10) @ [char_of (48 + n mod 10)])"

declare digit_str.simps [simp del]

fun str_items :: "float_or_str list \<Rightarrow> nat \<Rightarrow> exn + string list" where
  \<comment> \<open>\<^verbatim>\<open>str.join\<close> wants strings and names the first item that is none\<close>
  "str_items [] i = Inr []"
| "str_items (Str s # xs) i =
     (case str_items xs (Suc i) of Inl e \<Rightarrow> Inl e | Inr ss \<Rightarrow> Inr (s # ss))"
| "str_items (Float x # xs) i =
     Inl (TypeError (''sequence item '' @ digit_str i @ '': expected str instance, float found''))"

fun join :: "string \<Rightarrow> string list \<Rightarrow> string" where
  "join sep [] = []"
| "join sep [s] = s"
| "join sep (s # t # ss) = s @ sep @ join sep (t # ss)"

definition str_join :: "string \<Rightarrow> float_or_str list \<Rightarrow> exn + string" where
  "str_join sep xs = (case str_items xs 0 of Inl e \<Rightarrow> Inl e | Inr ss \<Rightarrow> Inr (join sep ss))"

definition prompt :: string where
  "prompt = ''Here is information about the aircraft near to me. Based on the following question, tell me the airline, type (for example, truncate to 777-300 ER from 777-336(ER)), departing and arriving CITIES of the SINGLE aircraft which most matches. Tell me the airport's country only if it is NOT in Western Europe or North America. You don't need to give a justification for your answer. Don't include redundant information. Here is the prompt:'' @ [CHR 0x0A]"

definition get_aircraft :: "builtins \<Rightarrow> ('b, 'f) gateway \<Rightarrow> (string \<rightharpoonup> string) \<Rightarrow> response" where
  "get_aircraft bi gw args =
     (case validate_location_params bi args of
        Inl e \<Rightarrow> error_response e
      | Inr (lon, lat, alt) \<Rightarrow>
          (case get_flights_with_distances gw lat lon alt 20000 of
             Inl e \<Rightarrow> error_response e
           | Inr aircraft_data \<Rightarrow>
               (case output_loop bi (sort_by_distance aircraft_data) [] of
                  Inl e \<Rightarrow> error_response e
                | Inr output_strings \<Rightarrow>
                    (case str_join [CHR 0x0A] output_strings of
                       Inl e \<Rightarrow> error_response e
                     | Inr combined_output \<Rightarrow> (combined_output @ prompt, 200, text_plain)))))"

fun valid_aircraft_of :: "entry list \<Rightarrow> (dist \<times> flight_data) list" where
  \<comment> \<open>the list comprehension of get_closest_aircraft\<close>
  "valid_aircraft_of [] = []"
| "valid_aircraft_of ((d, None, t) # rest) = valid_aircraft_of rest"
| "valid_aircraft_of ((d, Some fd, t) # rest) = (d, fd) # valid_aircraft_of rest"

definition sentence :: "builtins \<Rightarrow> flight_data \<Rightarrow> string" where
  "sentence bi closest_flight =
     str_of_val bi (airline closest_flight) @ '' ''
     @ str_of_val bi (aircraft_type closest_flight) @ '' departing from ''
     @ str_of_val bi (source closest_flight) @ '' to ''
     @ str_of_val bi (destination closest_flight) @ ''.''"

definition get_closest_aircraft ::
  "builtins \<Rightarrow> ('b, 'f) gateway \<Rightarrow> (string \<rightharpoonup> string) \<Rightarrow> response" where
  "get_closest_aircraft bi gw args =
     (case validate_location_params bi args of
        Inl e \<Rightarrow> error_response e
      | Inr (lon, lat, alt) \<Rightarrow>
          (case get_flights_with_distances gw lat lon alt 10000 of
             Inl e \<Rightarrow> error_response e
           | Inr aircraft_data \<Rightarrow>
               (let valid_aircraft = valid_aircraft_of aircraft_data
                in if valid_aircraft = []
                   then (''No aircraft found within 10km of your location.'', 200, text_plain)
                   else (case sort_by_distance valid_aircraft of
                           [] \<Rightarrow> error_response (IndexError ''list index out of range'')
                         | (closest_dist, closest_flight) # others \<Rightarrow>
                             (sentence bi closest_flight, 200, text_plain)))))"

section \<open>The conversion and the bearing as the design document writes them\<close>

definition wgs84_N :: "real \<Rightarrow> real" where
  "wgs84_N phi = 6378137.0 / sqrt (1 - 0.006694379990197619 * (sin phi)\<^sup>2)"

definition toCartesian_spec :: "real \<Rightarrow> real \<Rightarrow> real \<Rightarrow> real \<times> real \<times> real" where
  "toCartesian_spec longitude_deg latitude_deg altitude_ft =
     (let lam = longitude_deg * pi / 180;
          phi = latitude_deg * pi / 180;
          h = altitude_ft * 0.3048
      in ((wgs84_N phi + h) * cos phi * cos lam,
          (wgs84_N phi + h) * cos phi * sin lam,
          (0.9933056200098024 * wgs84_N phi + h) * sin phi))"

definition rmod :: "real \<Rightarrow> real \<Rightarrow> real" where
  \<comment> \<open>the remainder with the sign of the divisor\<close>
  "rmod x y = x - y * of_int \<lfloor>x / y\<rfloor>"

definition bearingTo_spec :: "real \<Rightarrow> real \<Rightarrow> real \<Rightarrow> real \<Rightarrow> real" where
  "bearingTo_spec fromLat fromLon toLat toLon =
     (let fromLat_rad = fromLat * pi / 180;
          toLat_rad = toLat * pi / 180;
          dlon = toLon * pi / 180 - fromLon * pi / 180;
          deg = math_atan2 (sin dlon * cos toLat_rad)
                  (cos fromLat_rad * sin toLat_rad
                   - sin fromLat_rad * cos toLat_rad * cos dlon) * 180 / pi
      in rmod (rmod deg 360 + 360) 360)"

definition euclid :: "real \<times> real \<times> real \<Rightarrow> real \<times> real \<times> real \<Rightarrow> real" where
  "euclid p q =
     (case p of (x1, y1, z1) \<Rightarrow> case q of (x2, y2, z2) \<Rightarrow>
        sqrt ((x2 - x1)\<^sup>2 + (y2 - y1)\<^sup>2 + (z2 - z1)\<^sup>2))"

text \<open>
  The Euclidean distance as a float: OverflowError when a square is beyond the range,
  plus infinity when only their sum is.
\<close>

definition float_distance ::
  "real \<times> real \<times> real \<Rightarrow> real \<times> real \<times> real \<Rightarrow> exn + dist" where
  "float_distance p q =
     (case p of (x1, y1, z1) \<Rightarrow> case q of (x2, y2, z2) \<Rightarrow>
        if float_max < (x2 - x1)\<^sup>2 \<or> float_max < (y2 - y1)\<^sup>2 \<or> float_max < (z2 - z1)\<^sup>2
        then Inl (OverflowError ''math range error'')
        else if float_max < (x2 - x1)\<^sup>2 + (y2 - y1)\<^sup>2 + (z2 - z1)\<^sup>2 then Inr PInf
        else Inr (Fin (euclid p q)))"

text \<open>
  The design document's rule for one observation: plus infinity and an error message
  when the attributes could not be retrieved, otherwise the Euclidean distance of the
  two converted points and the bearing of the geodetic coordinates. The tuple is laid
  out as main.py lays it out. The rule has no result when the position of the aircraft
  is not three numbers or the distance overflows; \<open>collect\<close> gathers the results of a
  list of observations up to the first that has none.
\<close>

definition position_of :: "flight_data \<Rightarrow> exn + (real \<times> real \<times> real)" where
  \<comment> \<open>longitude, latitude, altitude\<close>
  "position_of fd =
     (case math_arg (fd_longitude fd) of
        Inl e \<Rightarrow> Inl e
      | Inr lon \<Rightarrow>
          (case math_arg (fd_latitude fd) of
             Inl e \<Rightarrow> Inl e
           | Inr lat \<Rightarrow>
               (case times_float (fd_altitude fd) of
                  Inl e \<Rightarrow> Inl e
                | Inr alt \<Rightarrow> Inr (lon, lat, alt))))"

fun collect :: "(exn + 'a) list \<Rightarrow> exn + 'a list" where
  "collect [] = Inr []"
| "collect (Inl e # rs) = Inl e"
| "collect (Inr x # rs) = (case collect rs of Inl e \<Rightarrow> Inl e | Inr xs \<Rightarrow> Inr (x # xs))"

definition rank_one ::
  "('b, 'f) gateway \<Rightarrow> real \<Rightarrow> real \<Rightarrow> real \<Rightarrow> 'f \<Rightarrow> exn + entry" where
  "rank_one gw lat lon alt flight =
     (case get_flight_data gw flight of
        None \<Rightarrow> Inr (PInf, None, Str (''Error processing flight '' @ flight_str gw flight))
      | Some fd \<Rightarrow>
          (case position_of fd of
             Inl e \<Rightarrow> Inl e
           | Inr (alon, alat, aalt) \<Rightarrow>
               (case float_distance (toCartesian_spec lon lat alt)
                       (toCartesian_spec alon alat aalt) of
                  Inl e \<Rightarrow> Inl e
                | Inr d \<Rightarrow> Inr (d, Some fd, Float (bearingTo_spec lat lon alat alon)))))"

section \<open>Reading an entry\<close>

text \<open>
  An entry holds an observation when its second component is a dictionary, and an error
  message when its third component is a string. \<open>entry_item e i\<close> is \<^verbatim>\<open>e[i]\<close> as a
  Python value, \<open>None\<close> beyond the tuple.
\<close>

definition has_observation :: "entry \<Rightarrow> bool" where
  "has_observation e = (fst (snd e) \<noteq> None)"

fun has_error_message :: "entry \<Rightarrow> bool" where
  "has_error_message (d, fd, Str m) = True"
| "has_error_message (d, fd, Float h) = False"

datatype pyval = PyFloat dist | PyNone | PyDict flight_data | PyStr string

fun entry_item :: "entry \<Rightarrow> nat \<Rightarrow> pyval option" where
  "entry_item (d, fd, t) i =
     (if i = 0 then Some (PyFloat d)
      else if i = 1 then Some (case fd of None \<Rightarrow> PyNone | Some x \<Rightarrow> PyDict x)
      else if i = 2 then Some (case t of Float h \<Rightarrow> PyFloat (Fin h) | Str s \<Rightarrow> PyStr s)
      else None)"

text \<open>The line of the listing for an entry: its message, or the aircraft's description.\<close>

fun render_entry :: "builtins \<Rightarrow> entry \<Rightarrow> string" where
  "render_entry bi (d, None, Str m) = m"
| "render_entry bi (d, Some fd, Float h) = aircraft_info bi (dist_div d 1000) fd h"
| "render_entry bi (d, None, Float h) = []"
| "render_entry bi (d, Some fd, Str m) = []"


definition drop_failed :: "('b, 'f) gateway \<Rightarrow> ('b, 'f) gateway" where
  "drop_failed gw =
     gw\<lparr>get_flights := \<lambda>b. (case get_flights gw b of
                                Inl e \<Rightarrow> Inl e
                              | Inr fs \<Rightarrow> Inr (filter (\<lambda>f. get_flight_data gw f \<noteq> None) fs))\<rparr>"

section \<open>A small gateway to run the model on\<close>

text \<open>
  Flights are numbers. Flights 0 and 9 have no details; flight 6 has the text
  \<^verbatim>\<open>'N/A'\<close> for a latitude; flight 7 is on the equator at longitude 90 and flight 8
  is above it at \<open>high_altitude\<close> feet, which is \<open>high_radius\<close> metres from the centre
  of the Earth; any other flight \<open>f\<close> is above the point (0, 0) at \<open>1000 * f\<close> feet.
\<close>

definition no_attrs :: flight_attrs where
  "no_attrs = \<lparr> origin_airport_name = None, destination_airport_name = None,
                 airline_name = None, aircraft_model = None, flight_altitude = None,
                 flight_latitude = None, flight_longitude = None, flight_heading = None \<rparr>"

definition high_radius :: real where
  "high_radius = 3 * 2 ^ 510"

definition high_altitude :: real where
  "high_altitude = (high_radius - 6378137) / 0.3048"

definition demo_gateway :: "nat list \<Rightarrow> (unit, nat) gateway" where
  "demo_gateway fs =
     \<lparr> get_bounds_by_point = (\<lambda>lat lon r. Inr ()),
       get_flights = (\<lambda>b. Inr fs),
       get_flight_details =
         (\<lambda>f. if f = 0 \<or> f = 9 then Inl (Exception ''no details'')
              else if f = 6 then Inr (no_attrs\<lparr>flight_latitude := Some (Text ''N/A'')\<rparr>)
              else if f = 7 then Inr (no_attrs\<lparr>flight_longitude := Some (Num 90)\<rparr>)
              else if f = 8 then Inr (no_attrs\<lparr>flight_longitude := Some (Num 90),
                                                 flight_altitude := Some (Num high_altitude)\<rparr>)
              else Inr (no_attrs\<lparr>airline_name := Some (Text ''Air''),
                                  flight_altitude := Some (Num (1000 * real f))\<rparr>)),
       flight_str = (\<lambda>f. ''F'' @ digit_str f) \<rparr>"

definition demo_builtins :: builtins where
  "demo_builtins =
     \<lparr> float_of_str = (\<lambda>s. if s = ''0'' then Some 0 else if s = ''51.5'' then Some 51.5 else None),
       str_of_num = (\<lambda>x. ''n''),
       format_f = (\<lambda>n x. ''f'') \<rparr>"

definition unknown_at :: "real \<Rightarrow> flight_data" where
  "unknown_at a = \<lparr> source = Text ''Unknown'', destination = Text ''Unknown'',
       airline = Text ''Air'', aircraft_type = Text ''Unknown'', fd_altitude = Num a,
       fd_latitude = Num 0, fd_longitude = Num 0, fd_heading = Num 0 \<rparr>"

definition east_at :: "real \<Rightarrow> flight_data" where
  "east_at a = \<lparr> source = Text ''Unknown'', destination = Text ''Unknown'',
       airline = Text ''Unknown'', aircraft_type = Text ''Unknown'', fd_altitude = Num a,
       fd_latitude = Num 0, fd_longitude = Num 90, fd_heading = Num 0 \<rparr>"

definition east_flight :: flight_data where
  "east_flight = east_at 0"

definition args_of :: "(string \<times> string) list \<Rightarrow> (string \<rightharpoonup> string)" where
  "args_of kvs = map_of kvs"

section \<open>Numeric core: proofs\<close>

lemma float_max_ge: "2 ^ 1023 \<le> float_max"
  by (simp add: float_max_def)

lemma fits: "x \<le> 2 ^ 1023 \<Longrightarrow> \<not> float_max < x"
  using float_max_ge by linarith

lemma pow2_sin: "math_pow2 (sin phi) = Inr ((sin phi)\<^sup>2)"
proof -
  have "(sin phi)\<^sup>2 \<le> 1"
    by (simp add: abs_square_le_1)
  also have "(1::real) \<le> 2 ^ 1023"
    by simp
  finally have "\<not> float_max < (sin phi)\<^sup>2"
    by (rule fits)
  then show ?thesis
    by (simp add: math_pow2_def)
qed

lemma N_defined: "N phi = Inr (wgs84_N phi)"
proof -
  have "(sin phi)\<^sup>2 \<le> 1"
    by (simp add: abs_square_le_1)
  then have pos: "0 < 1 - 0.006694379990197619 * (sin phi)\<^sup>2"
    by simp
  then have "sqrt (1 - 0.006694379990197619 * (sin phi)\<^sup>2) \<noteq> 0"
    by simp
  with pos show ?thesis
    by (simp add: N_def pow2_sin math_sqrt_def float_div_def wgs84_N_def)
qed

lemma cartesian_defined:
  "pointToCartesian lon lat alt = Inr (toCartesian_spec lon lat alt)"
  by (simp add: pointToCartesian_def toCartesian_spec_def N_defined math_radians_def Let_def)

text \<open>
  C2. For all longitude, latitude (degrees) and altitude (feet), pointToCartesian raises
  nothing and returns the WGS84 geodetic-to-ECEF point of the design document:
  with N(phi) = 6378137.0 / sqrt(1 - 0.006694379990197619 * sin(phi)^2) and
  h = altitude * 0.3048, the point ((N+h) cos phi cos lambda, (N+h) cos phi sin lambda,
  (0.9933056200098024 N + h) sin phi).
\<close>

theorem pointToCartesian_is_wgs84:
  "pointToCartesian longitude latitude altitude
     = Inr (toCartesian_spec longitude latitude altitude)"
  by (simp add: pointToCartesian_def toCartesian_spec_def N_defined math_radians_def Let_def)

lemma rmod_range: "0 < y \<Longrightarrow> 0 \<le> rmod x y \<and> rmod x y < y"
  using floor_divide_lower [of y x] floor_divide_upper [of y x]
  by (simp add: rmod_def algebra_simps)

lemma rmod_shift: "y \<noteq> 0 \<Longrightarrow> rmod (x + y) y = rmod x y"
proof -
  assume y: "y \<noteq> 0"
  then have "(x + y) / y = x / y + 1"
    by (simp add: add_divide_distrib)
  then have "\<lfloor>(x + y) / y\<rfloor> = \<lfloor>x / y\<rfloor> + 1"
    by simp
  then show ?thesis
    by (simp add: rmod_def algebra_simps)
qed

lemma rmod_small: "0 \<le> x \<Longrightarrow> x < y \<Longrightarrow> rmod x y = x"
proof -
  assume x: "0 \<le> x" "x < y"
  then have "\<lfloor>x / y\<rfloor> = 0"
    by (simp add: floor_eq_iff)
  then show ?thesis
    by (simp add: rmod_def)
qed

lemma rmod_twice: "0 < y \<Longrightarrow> rmod (rmod x y + y) y = rmod (x + y) y"
  using rmod_range [of y x] by (simp add: rmod_shift rmod_small)

lemma heading_defined:
  "calculate_heading_to_aircraft fromLat fromLon toLat toLon
     = Inr (bearingTo_spec fromLat fromLon toLat toLon)"
  by (simp add: calculate_heading_to_aircraft_def bearingTo_spec_def float_mod_def
        math_radians_def math_degrees_def Let_def rmod_twice rmod_def [symmetric])

lemma bearing_range:
  "0 \<le> bearingTo_spec fromLat fromLon toLat toLon
   \<and> bearingTo_spec fromLat fromLon toLat toLon < 360"
  unfolding bearingTo_spec_def Let_def by (rule rmod_range) simp

text \<open>
  C3. For all four inputs, calculate_heading_to_aircraft raises nothing and returns
  atan2(sin(dlon) cos(toLat), cos(fromLat) sin(toLat) - sin(fromLat) cos(toLat) cos(dlon))
  in degrees, normalised by ((deg % 360) + 360) % 360; the result is at least 0 and
  less than 360.
\<close>

theorem calculate_heading_is_bearing:
  "calculate_heading_to_aircraft fromLat fromLon toLat toLon
     = Inr (bearingTo_spec fromLat fromLon toLat toLon)
   \<and> 0 \<le> bearingTo_spec fromLat fromLon toLat toLon
   \<and> bearingTo_spec fromLat fromLon toLat toLon < 360"
  by (simp add: heading_defined bearing_range)

section \<open>The ranking loop: proofs\<close>

lemma sqrt_of_sum:
  assumes "0 \<le> a" and "0 \<le> b" and "0 \<le> c"
  shows "math_sqrt_dist (float_add (float_add (Fin a) (Fin b)) (Fin c))
           = (if float_max < a + b + c then Inr PInf else Inr (Fin (sqrt (a + b + c))))"
  using assms by (auto simp add: math_sqrt_def)

lemma distance_float:
  "distance x1 y1 z1 x2 y2 z2 = float_distance (x1, y1, z1) (x2, y2, z2)"
  by (simp add: distance_def float_distance_def math_pow2_def euclid_def sqrt_of_sum
      del: float_add.simps math_sqrt_dist.simps)

lemma position_dyn:
  "pointToCartesian_dyn (fd_longitude fd) (fd_latitude fd) (fd_altitude fd)
     = (case position_of fd of
          Inl e \<Rightarrow> Inl e
        | Inr (alon, alat, aalt) \<Rightarrow> Inr (toCartesian_spec alon alat aalt))"
  by (simp add: pointToCartesian_dyn_def position_of_def cartesian_defined split: sum.splits)

lemma heading_dyn:
  "position_of fd = Inr (alon, alat, aalt)
     \<Longrightarrow> calculate_heading_to_aircraft_dyn lat lon (fd_latitude fd) (fd_longitude fd)
           = Inr (bearingTo_spec lat lon alat alon)"
  by (auto simp add: calculate_heading_to_aircraft_dyn_def position_of_def heading_defined
      split: sum.splits)

lemma flights_loop_step:
  "flights_loop gw (toCartesian_spec lon lat alt) lat lon (f # fs) acc
     = (case rank_one gw lat lon alt f of
          Inl e \<Rightarrow> Inl e
        | Inr en \<Rightarrow> flights_loop gw (toCartesian_spec lon lat alt) lat lon fs (acc @ [en]))"
proof (cases "get_flight_data gw f")
  case None
  then show ?thesis
    by (simp add: rank_one_def)
next
  case (Some fd)
  obtain ux uy uz where u: "toCartesian_spec lon lat alt = (ux, uy, uz)"
    by (cases "toCartesian_spec lon lat alt") auto
  show ?thesis
  proof (cases "position_of fd")
    case (Inl e)
    then show ?thesis
      by (simp add: Some rank_one_def position_dyn)
  next
    case (Inr p)
    obtain alon alat aalt where p: "p = (alon, alat, aalt)"
      by (cases p) auto
    obtain ax ay az where a: "toCartesian_spec alon alat aalt = (ax, ay, az)"
      by (cases "toCartesian_spec alon alat aalt") auto
    have h: "calculate_heading_to_aircraft_dyn lat lon (fd_latitude fd) (fd_longitude fd)
               = Inr (bearingTo_spec lat lon alat alon)"
      using Inr p by (simp add: heading_dyn)
    show ?thesis
      using Inr p
      by (simp add: Some rank_one_def position_dyn u a distance_float h split: sum.splits)
  qed
qed

lemma flights_loop_collect:
  "flights_loop gw (toCartesian_spec lon lat alt) lat lon fs acc
     = (case collect (map (rank_one gw lat lon alt) fs) of
          Inl e \<Rightarrow> Inl e
        | Inr es \<Rightarrow> Inr (acc @ es))"
proof (induction fs arbitrary: acc)
  case Nil
  show ?case by simp
next
  case (Cons f fs)
  show ?case
  proof (cases "rank_one gw lat lon alt f")
    case (Inl e)
    then show ?thesis
      by (simp only: flights_loop_step) simp
  next
    case (Inr en)
    then show ?thesis
      by (simp only: flights_loop_step Cons.IH) (simp split: sum.splits)
  qed
qed

lemma flights_closed:
  assumes "get_bounds_by_point gw lat lon r = Inr b" and "get_flights gw b = Inr fs"
  shows "get_flights_with_distances gw lat lon alt r
           = (case collect (map (rank_one gw lat lon alt) fs) of
                Inl e \<Rightarrow> Inl (Exception (''Error fetching flight data: '' @ exn_str e))
              | Inr es \<Rightarrow> Inr es)"
  using assms
  by (simp add: get_flights_with_distances_def flights_try_def cartesian_defined
      flights_loop_collect split: sum.splits)

lemma flights_Inr:
  assumes "get_flights_with_distances gw lat lon alt r = Inr es"
  shows "\<exists>b fs. get_bounds_by_point gw lat lon r = Inr b \<and> get_flights gw b = Inr fs
           \<and> collect (map (rank_one gw lat lon alt) fs) = Inr es"
  using assms
  by (auto simp add: get_flights_with_distances_def flights_try_def cartesian_defined
      flights_loop_collect split: sum.splits)

lemma collect_map_Inr_id: "collect (map Inr xs) = Inr xs"
  by (induction xs) simp_all

lemma collect_Inr_D: "collect rs = Inr xs \<Longrightarrow> rs = map Inr xs"
proof (induction rs arbitrary: xs)
  case Nil
  then show ?case by simp
next
  case (Cons r rs)
  show ?case
  proof (cases r)
    case (Inl e)
    with Cons.prems show ?thesis by simp
  next
    case (Inr x)
    with Cons.prems obtain ys where "collect rs = Inr ys" and "xs = x # ys"
      by (auto split: sum.splits)
    with Cons.IH Inr show ?thesis by simp
  qed
qed

lemma collect_Inr:
  "collect rs = Inr xs \<longleftrightarrow> rs = map Inr xs"
  using collect_Inr_D collect_map_Inr_id by metis

lemma collect_map_Inr:
  "collect (map f xs) = Inr es
     \<longleftrightarrow> length es = length xs \<and> (\<forall>i<length xs. f (xs ! i) = Inr (es ! i))"
proof -
  have "map f xs = map Inr es
          \<longleftrightarrow> length es = length xs \<and> (\<forall>i<length xs. f (xs ! i) = Inr (es ! i))"
    by (auto simp add: list_eq_iff_nth_eq)
  then show ?thesis
    by (simp add: collect_Inr)
qed

lemma ranked_entry:
  assumes "get_flights_with_distances gw lat lon alt r = Inr es" and "e \<in> set es"
  shows "\<exists>f. rank_one gw lat lon alt f = Inr e"
proof -
  obtain b fs where c: "collect (map (rank_one gw lat lon alt) fs) = Inr es"
    using flights_Inr [OF assms(1)] by blast
  from assms(2) obtain i where i: "i < length es" "es ! i = e"
    by (auto simp add: in_set_conv_nth)
  with c have "rank_one gw lat lon alt (fs ! i) = Inr e"
    by (simp add: collect_map_Inr)
  then show ?thesis ..
qed

lemma PInf_top [simp]: "d \<le> PInf"
  by (cases d) (simp_all add: less_eq_dist_def)

lemma PInf_le_iff [simp]: "PInf \<le> d \<longleftrightarrow> d = PInf"
  by (cases d) (simp_all add: less_eq_dist_def)

lemma Fin_le_iff [simp]: "Fin a \<le> Fin b \<longleftrightarrow> a \<le> b"
  by (simp add: less_eq_dist_def)

lemma rank_one_failed:
  "get_flight_data gw f = None
     \<Longrightarrow> rank_one gw lat lon alt f
           = Inr (PInf, None, Str (''Error processing flight '' @ flight_str gw f))"
  by (simp add: rank_one_def)

lemma rank_one_fetched:
  assumes "get_flight_data gw f = Some fd" and "rank_one gw lat lon alt f = Inr e"
  shows "\<exists>d alon alat aalt. e = (d, Some fd, Float (bearingTo_spec lat lon alat alon))
           \<and> position_of fd = Inr (alon, alat, aalt)
           \<and> float_distance (toCartesian_spec lon lat alt) (toCartesian_spec alon alat aalt)
               = Inr d"
  using assms by (auto simp add: rank_one_def split: sum.splits)

lemma rank_one_invariant:
  assumes "rank_one gw lat lon alt f = Inr e"
  shows "has_observation e \<noteq> has_error_message e
         \<and> (has_error_message e \<longrightarrow> fst (snd e) = None \<and> fst e = PInf)"
proof (cases "get_flight_data gw f")
  case None
  with assms show ?thesis
    by (auto simp add: rank_one_failed has_observation_def)
next
  case (Some fd)
  from rank_one_fetched [OF Some assms] show ?thesis
    by (auto simp add: has_observation_def)
qed

text \<open>
  C5. Every entry get_flights_with_distances returns has exactly one of the
  observation and the error message, and an entry with an error message has no
  observation and distance plus infinity.
\<close>

theorem ranked_entry_invariant:
  assumes "get_flights_with_distances gw lat lon alt r = Inr es" and "e \<in> set es"
  shows "has_observation e \<noteq> has_error_message e
         \<and> (has_error_message e \<longrightarrow> fst (snd e) = None \<and> fst e = PInf)"
proof -
  obtain f where "rank_one gw lat lon alt f = Inr e"
    using ranked_entry [OF assms] by blast
  then show ?thesis
    by (rule rank_one_invariant)
qed

text \<open>
  C4, amended. Every entry of get_flights_with_distances that holds an observation is a
  tuple whose components are, in order: the distance, the aircraft data, the bearing;
  the distance is the float distance of the two converted points and the bearing that
  of the geodetic coordinates.
\<close>

theorem ranked_tuple_layout:
  assumes "get_flights_with_distances gw lat lon alt r = Inr es"
    and "e \<in> set es" and "has_observation e"
  shows "\<exists>d fd h alon alat aalt. e = (d, Some fd, Float h)
     \<and> entry_item e 0 = Some (PyFloat d)
     \<and> entry_item e 1 = Some (PyDict fd)
     \<and> entry_item e 2 = Some (PyFloat (Fin h))
     \<and> fd_longitude fd = Num alon \<and> fd_latitude fd = Num alat \<and> fd_altitude fd = Num aalt
     \<and> float_distance (toCartesian_spec lon lat alt) (toCartesian_spec alon alat aalt) = Inr d
     \<and> h = bearingTo_spec lat lon alat alon"
proof -
  obtain f where r: "rank_one gw lat lon alt f = Inr e"
    using ranked_entry [OF assms(1,2)] by blast
  with assms(3) obtain fd where fd: "get_flight_data gw f = Some fd"
    by (cases "get_flight_data gw f") (auto simp add: rank_one_failed has_observation_def)
  from rank_one_fetched [OF fd r] obtain d alon alat aalt where
    e: "e = (d, Some fd, Float (bearingTo_spec lat lon alat alon))"
    and p: "position_of fd = Inr (alon, alat, aalt)"
    and fdist: "float_distance (toCartesian_spec lon lat alt) (toCartesian_spec alon alat aalt)
                  = Inr d"
    by blast
  from p have "fd_longitude fd = Num alon \<and> fd_latitude fd = Num alat \<and> fd_altitude fd = Num aalt"
    by (cases "fd_longitude fd"; cases "fd_latitude fd"; cases "fd_altitude fd")
       (simp_all add: position_of_def)
  with e fdist show ?thesis
    by simp
qed

lemma digit_str_0: "digit_str 0 = ''0''"
  by code_simp

lemma digit_str_9: "digit_str 9 = ''9''"
  by code_simp

lemma wgs84_N_0: "wgs84_N 0 = 6378137"
  by (simp add: wgs84_N_def)

lemma toCartesian_equator: "toCartesian_spec 0 0 a = (6378137 + a * 0.3048, 0, 0)"
  by (simp add: toCartesian_spec_def wgs84_N_0)

lemma toCartesian_east: "toCartesian_spec 90 0 a = (0, 6378137 + a * 0.3048, 0)"
  by (simp add: toCartesian_spec_def wgs84_N_0)

lemma bearing_same: "bearingTo_spec 0 0 0 0 = 0"
  by (simp add: bearingTo_spec_def math_atan2_def rmod_def)

lemma bearing_east: "bearingTo_spec 0 0 0 90 = 90"
  by (simp add: bearingTo_spec_def math_atan2_def rmod_def)

lemma toCartesian_high: "toCartesian_spec 0 0 high_altitude = (high_radius, 0, 0)"
  by (simp add: toCartesian_spec_def wgs84_N_0 high_altitude_def field_simps)

lemma toCartesian_high_east: "toCartesian_spec 90 0 high_altitude = (0, high_radius, 0)"
  by (simp add: toCartesian_spec_def wgs84_N_0 high_altitude_def field_simps)

lemma demo_flights:
  "get_flights_with_distances (demo_gateway fs) lat lon alt r
     = (case collect (map (rank_one (demo_gateway fs) lat lon alt) fs) of
          Inl e \<Rightarrow> Inl (Exception (''Error fetching flight data: '' @ exn_str e))
        | Inr es \<Rightarrow> Inr es)"
  by (rule flights_closed [where b = "()"]) (simp_all add: demo_gateway_def)

lemma demo_data_fail:
  "f = 0 \<or> f = 9 \<Longrightarrow> get_flight_data (demo_gateway fs) f = None"
  by (auto simp add: get_flight_data_def demo_gateway_def)

lemma demo_rank_fail:
  "f = 0 \<or> f = 9 \<Longrightarrow> rank_one (demo_gateway fs) lat lon alt f
     = Inr (PInf, None, Str (''Error processing flight F'' @ digit_str f))"
  by (simp add: rank_one_failed demo_data_fail) (simp add: demo_gateway_def)

lemma demo_data_ok:
  "f \<noteq> 0 \<Longrightarrow> f \<noteq> 9 \<Longrightarrow> f \<noteq> 6 \<Longrightarrow> f \<noteq> 7 \<Longrightarrow> f \<noteq> 8
     \<Longrightarrow> get_flight_data (demo_gateway fs) f = Some (unknown_at (1000 * real f))"
  by (simp add: get_flight_data_def demo_gateway_def no_attrs_def getattr_def unknown_at_def)

lemma demo_data_east: "get_flight_data (demo_gateway fs) 7 = Some east_flight"
  by (simp add: get_flight_data_def demo_gateway_def no_attrs_def getattr_def east_flight_def
      east_at_def)

lemma demo_data_high: "get_flight_data (demo_gateway fs) 8 = Some (east_at high_altitude)"
  by (simp add: get_flight_data_def demo_gateway_def no_attrs_def getattr_def east_at_def)

lemma float_distance_above:
  assumes "0 \<le> a" and "a \<le> 10000"
  shows "float_distance (6378137, 0, 0) (6378137 + a * 0.3048, 0, 0) = Inr (Fin (a * 0.3048))"
proof -
  have "(a * 0.3048)\<^sup>2 \<le> (10000 * 0.3048)\<^sup>2"
    using assms by (intro power_mono mult_right_mono) simp_all
  also have "\<dots> \<le> 2 ^ 1023"
    by simp
  finally have "\<not> float_max < (a * 0.3048)\<^sup>2"
    by (rule fits)
  moreover have "\<not> float_max < 0"
    by (rule fits) simp
  ultimately show ?thesis
    using assms(1) by (simp add: float_distance_def euclid_def)
qed

lemma demo_rank_ok:
  assumes "f \<noteq> 0" and "f \<noteq> 9" and "f \<noteq> 6" and "f \<noteq> 7" and "f \<noteq> 8" and "f \<le> 10"
  shows "rank_one (demo_gateway fs) 0 0 0 f
     = Inr (Fin (304.8 * real f), Some (unknown_at (1000 * real f)), Float 0)"
proof -
  have "float_distance (6378137, 0, 0) (6378137 + (1000 * real f) * 0.3048, 0, 0)
          = Inr (Fin ((1000 * real f) * 0.3048))"
    using assms(6) by (intro float_distance_above) simp_all
  then show ?thesis
    using assms
    by (simp add: rank_one_def demo_data_ok position_of_def unknown_at_def toCartesian_equator
        bearing_same)
qed

lemma demo_rank_east:
  "rank_one (demo_gateway fs) 0 0 0 7
     = Inr (Fin (sqrt (6378137\<^sup>2 + 6378137\<^sup>2)), Some east_flight, Float 90)"
proof -
  have "\<not> float_max < (6378137::real)\<^sup>2" and "\<not> float_max < (6378137::real)\<^sup>2 + 6378137\<^sup>2"
    by (rule fits, simp)+
  then have "float_distance (6378137, 0, 0) (0, 6378137, 0)
               = Inr (Fin (sqrt (6378137\<^sup>2 + 6378137\<^sup>2)))"
    by (simp add: float_distance_def euclid_def)
  then show ?thesis
    by (simp add: rank_one_def demo_data_east position_of_def east_flight_def east_at_def
        toCartesian_equator toCartesian_east bearing_east)
qed


lemma float_distance_high:
  "float_distance (high_radius, 0, 0) (0, high_radius, 0) = Inr PInf"
  by (simp add: float_distance_def float_max_def high_radius_def)

lemma demo_rank_high:
  "rank_one (demo_gateway fs) 0 0 high_altitude 8
     = Inr (PInf, Some (east_at high_altitude), Float 90)"
  by (simp add: rank_one_def demo_data_high position_of_def east_at_def toCartesian_high
      toCartesian_high_east float_distance_high bearing_east)

theorem ranked_entry_invariant_witness:
  "get_flights_with_distances (demo_gateway [0, 3]) 0 0 0 20000
     = Inr [(PInf, None, Str ''Error processing flight F0''),
            (Fin 914.4, Some (unknown_at 3000), Float 0)]
   \<and> has_error_message (PInf, None, Str ''Error processing flight F0'')
   \<and> \<not> has_observation (PInf, None, Str ''Error processing flight F0'')
   \<and> has_observation (Fin 914.4, Some (unknown_at 3000), Float 0)
   \<and> \<not> has_error_message (Fin 914.4, Some (unknown_at 3000), Float 0)"
proof -
  have h: "get_flights_with_distances (demo_gateway [0, 3]) 0 0 0 20000
     = Inr [(PInf, None, Str ''Error processing flight F0''),
            (Fin 914.4, Some (unknown_at 3000), Float 0)]"
    by (simp add: demo_flights demo_rank_fail demo_rank_ok digit_str_0)
  show ?thesis
    using ranked_entry_invariant [OF h, of "(PInf, None, Str ''Error processing flight F0'')"]
      ranked_entry_invariant [OF h, of "(Fin 914.4, Some (unknown_at 3000), Float 0)"] h
    by (simp add: has_observation_def)
qed

text \<open>
  C4, as the design document states it, fails: for the flight at longitude 90 the second
  component of the entry is the dictionary and the third is the bearing 90.
\<close>

theorem tuple_order_counterexample:
  "get_flights_with_distances (demo_gateway [7]) 0 0 0 20000
     = Inr [(Fin (sqrt (6378137\<^sup>2 + 6378137\<^sup>2)), Some east_flight, Float 90)]
   \<and> entry_item (Fin (sqrt (6378137\<^sup>2 + 6378137\<^sup>2)), Some east_flight, Float 90) 1
       = Some (PyDict east_flight)
   \<and> entry_item (Fin (sqrt (6378137\<^sup>2 + 6378137\<^sup>2)), Some east_flight, Float 90) 1
       \<noteq> Some (PyFloat (Fin 90))
   \<and> entry_item (Fin (sqrt (6378137\<^sup>2 + 6378137\<^sup>2)), Some east_flight, Float 90) 2
       = Some (PyFloat (Fin 90))
   \<and> entry_item (Fin (sqrt (6378137\<^sup>2 + 6378137\<^sup>2)), Some east_flight, Float 90) 2
       \<noteq> Some (PyDict east_flight)"
  by (simp add: demo_flights demo_rank_east)

theorem ranked_tuple_layout_witness:
  "get_flights_with_distances (demo_gateway [7]) 0 0 0 20000
     = Inr [(Fin (sqrt (6378137\<^sup>2 + 6378137\<^sup>2)), Some east_flight, Float 90)]
   \<and> has_observation (Fin (sqrt (6378137\<^sup>2 + 6378137\<^sup>2)), Some east_flight, Float 90)
   \<and> (\<exists>d fd h alon alat. (Fin (sqrt (6378137\<^sup>2 + 6378137\<^sup>2)), Some east_flight, Float 90)
                  = (d, Some fd, Float h)
        \<and> entry_item (Fin (sqrt (6378137\<^sup>2 + 6378137\<^sup>2)), Some east_flight, Float 90) 1
            = Some (PyDict fd)
        \<and> entry_item (Fin (sqrt (6378137\<^sup>2 + 6378137\<^sup>2)), Some east_flight, Float 90) 2
            = Some (PyFloat (Fin h))
        \<and> fd_longitude fd = Num alon \<and> fd_latitude fd = Num alat
        \<and> h = bearingTo_spec 0 0 alat alon)"
proof -
  have h: "get_flights_with_distances (demo_gateway [7]) 0 0 0 20000
     = Inr [(Fin (sqrt (6378137\<^sup>2 + 6378137\<^sup>2)), Some east_flight, Float 90)]"
    by (simp add: demo_flights demo_rank_east)
  have m: "(Fin (sqrt (6378137\<^sup>2 + 6378137\<^sup>2)), Some east_flight, Float 90)
             \<in> set [(Fin (sqrt (6378137\<^sup>2 + 6378137\<^sup>2)), Some east_flight, Float 90)]"
    by simp
  have o: "has_observation (Fin (sqrt (6378137\<^sup>2 + 6378137\<^sup>2)), Some east_flight, Float 90)"
    by (simp add: has_observation_def)
  from ranked_tuple_layout [OF h m o] h o show ?thesis
    by blast
qed

lemma drop_failed_data: "get_flight_data (drop_failed gw) f = get_flight_data gw f"
  by (simp add: get_flight_data_def drop_failed_def)

lemma drop_failed_str: "flight_str (drop_failed gw) f = flight_str gw f"
  by (simp add: drop_failed_def)

lemma drop_failed_rank: "rank_one (drop_failed gw) lat lon alt f = rank_one gw lat lon alt f"
  by (simp add: rank_one_def drop_failed_data drop_failed_str cong: option.case_cong)

lemma drop_failed_rank_fun: "rank_one (drop_failed gw) lat lon alt = rank_one gw lat lon alt"
  by (rule ext) (rule drop_failed_rank)

lemma rank_one_observed:
  "get_flight_data gw f = Some fd \<Longrightarrow> rank_one gw lat lon alt f = Inr e \<Longrightarrow> has_observation e"
  using rank_one_fetched [of gw f fd lat lon alt e] by (auto simp add: has_observation_def)

lemma collect_drop:
  "collect (map (rank_one gw lat lon alt) (filter (\<lambda>f. get_flight_data gw f \<noteq> None) fs))
     = (case collect (map (rank_one gw lat lon alt) fs) of
          Inl e \<Rightarrow> Inl e
        | Inr es \<Rightarrow> Inr (filter has_observation es))"
proof (induction fs)
  case Nil
  show ?case by simp
next
  case (Cons f fs)
  show ?case
  proof (cases "get_flight_data gw f")
    case None
    then show ?thesis
      using Cons.IH by (simp add: rank_one_failed has_observation_def split: sum.splits)
  next
    case (Some fd)
    show ?thesis
    proof (cases "rank_one gw lat lon alt f")
      case (Inl e)
      then show ?thesis by (simp add: Some)
    next
      case (Inr en)
      with Some have "has_observation en"
        by (rule rank_one_observed)
      with Inr Some Cons.IH show ?thesis
        by (simp split: sum.splits)
    qed
  qed
qed


lemma flights_drop_failed:
  assumes "get_bounds_by_point gw lat lon r = Inr b" and "get_flights gw b = Inr fs"
  shows "get_flights_with_distances (drop_failed gw) lat lon alt r
        = (case get_flights_with_distances gw lat lon alt r of
             Inl e \<Rightarrow> Inl e
           | Inr es \<Rightarrow> Inr (filter has_observation es))"
proof -
  have c: "get_flights_with_distances gw lat lon alt r
           = (case collect (map (rank_one gw lat lon alt) fs) of
                Inl e \<Rightarrow> Inl (Exception (''Error fetching flight data: '' @ exn_str e))
              | Inr es \<Rightarrow> Inr es)"
    by (rule flights_closed [OF assms])
  have b': "get_bounds_by_point (drop_failed gw) lat lon r = Inr b"
    using assms(1) by (simp add: drop_failed_def)
  have f': "get_flights (drop_failed gw) b
              = Inr (filter (\<lambda>f. get_flight_data gw f \<noteq> None) fs)"
    using assms(2) by (simp add: drop_failed_def)
  have "get_flights_with_distances (drop_failed gw) lat lon alt r
          = (case collect (map (rank_one gw lat lon alt)
                            (filter (\<lambda>f. get_flight_data gw f \<noteq> None) fs)) of
               Inl e \<Rightarrow> Inl (Exception (''Error fetching flight data: '' @ exn_str e))
             | Inr es \<Rightarrow> Inr es)"
    using flights_closed [OF b' f', of alt] by (simp only: drop_failed_rank_fun)
  then show ?thesis
    by (simp add: c collect_drop del: not_None_eq split: sum.splits)
qed







lemma insort_key_append_ge:
  "\<forall>b\<in>set B. f x \<le> f b \<Longrightarrow> insort_key f x (A @ B) = insort_key f x A @ B"
  by (induction A) (simp_all add: insort_is_Cons)

lemma insort_key_append_gt:
  "\<forall>a\<in>set A. \<not> f x \<le> f a \<Longrightarrow> \<forall>b\<in>set B. f x \<le> f b
     \<Longrightarrow> insort_key f x (A @ B) = A @ x # B"
  by (induction A) (simp_all add: insort_is_Cons)

lemma sort_key_PInf_last:
  "sort_key fst xs
     = sort_key fst (filter (\<lambda>e. fst e \<noteq> PInf) xs) @ filter (\<lambda>e. fst e = PInf) xs"
proof (induction xs)
  case Nil
  show ?case by simp
next
  case (Cons x xs)
  show ?case
  proof (cases "fst x = PInf")
    case True
    have "insort_key fst x (sort_key fst (filter (\<lambda>e. fst e \<noteq> PInf) xs) @ filter (\<lambda>e. fst e = PInf) xs)
            = sort_key fst (filter (\<lambda>e. fst e \<noteq> PInf) xs) @ x # filter (\<lambda>e. fst e = PInf) xs"
      by (rule insort_key_append_gt) (simp_all add: True)
    with True Cons.IH show ?thesis by simp
  next
    case False
    have "insort_key fst x (sort_key fst (filter (\<lambda>e. fst e \<noteq> PInf) xs) @ filter (\<lambda>e. fst e = PInf) xs)
            = insort_key fst x (sort_key fst (filter (\<lambda>e. fst e \<noteq> PInf) xs)) @ filter (\<lambda>e. fst e = PInf) xs"
      by (rule insort_key_append_ge) simp
    with False Cons.IH show ?thesis by simp
  qed
qed

lemma output_loop_render:
  "\<forall>e\<in>set es. has_observation e \<noteq> has_error_message e
     \<Longrightarrow> output_loop bi es acc = Inr (acc @ map (\<lambda>e. Str (render_entry bi e)) es)"
proof (induction es arbitrary: acc)
  case Nil
  show ?case by simp
next
  case (Cons e es)
  obtain d fdo t where e: "e = (d, fdo, t)"
    by (cases e) auto
  from Cons.prems have inv: "has_observation e \<noteq> has_error_message e"
    and rest: "\<forall>e\<in>set es. has_observation e \<noteq> has_error_message e"
    by simp_all
  show ?case
  proof (cases fdo)
    case None
    with inv e obtain m where "t = Str m"
      by (cases t) (simp_all add: has_observation_def)
    with None e show ?thesis
      by (simp add: Cons.IH [OF rest])
  next
    case (Some fd)
    with inv e obtain h where "t = Float h"
      by (cases t) (simp_all add: has_observation_def)
    with Some e show ?thesis
      by (simp add: Cons.IH [OF rest])
  qed
qed

lemma str_items_Str: "str_items (map Str ss) i = Inr ss"
  by (induction ss arbitrary: i) simp_all

lemma str_join_Str: "str_join sep (map Str ss) = Inr (join sep ss)"
  by (simp add: str_join_def str_items_Str)

lemma render_all:
  assumes "\<forall>e\<in>set es. has_observation e \<noteq> has_error_message e"
  shows "(case output_loop bi es [] of
            Inl e \<Rightarrow> error_response e
          | Inr output_strings \<Rightarrow>
              (case str_join sep output_strings of
                 Inl e \<Rightarrow> error_response e
               | Inr combined_output \<Rightarrow> (combined_output @ prompt, 200, text_plain)))
         = (join sep (map (render_entry bi) es) @ prompt, 200, text_plain)"
proof -
  have "map (\<lambda>e. Str (render_entry bi e)) es = map Str (map (render_entry bi) es)"
    by simp
  then show ?thesis
    by (simp only: output_loop_render [OF assms] append_Nil str_join_Str sum.case)
qed

text \<open>
  C1, as stated, fails where a distance overflows: seen from \<open>high_altitude\<close> feet
  above (0, 0), flight 8 has the squares of two coordinate differences within the
  float range and their sum beyond it, so its distance is plus infinity; listed after
  the failing flight 0 it stays after it in the sorted list, and the unprocessable
  entry comes before a resolvable one.
\<close>

theorem overflow_tie_counterexample:
  "get_flights_with_distances (demo_gateway [0, 8]) 0 0 high_altitude 20000
     = Inr [(PInf, None, Str ''Error processing flight F0''),
            (PInf, Some (east_at high_altitude), Float 90)]
   \<and> sort_by_distance [(PInf, None, Str ''Error processing flight F0''),
                        (PInf, Some (east_at high_altitude), Float 90)]
     = [(PInf, None, Str ''Error processing flight F0''),
        (PInf, Some (east_at high_altitude), Float 90)]
   \<and> has_observation (PInf, Some (east_at high_altitude), Float 90)
   \<and> \<not> has_observation (PInf, None, Str ''Error processing flight F0'')
   \<and> sort_by_distance [(PInf, None, Str ''Error processing flight F0''),
                        (PInf, Some (east_at high_altitude), Float 90)]
     \<noteq> sort_by_distance
          (filter (\<lambda>e. fst (snd e) \<noteq> None)
             [(PInf, None, Str ''Error processing flight F0''),
              (PInf, Some (east_at high_altitude), Float 90)])
        @ filter (\<lambda>e. fst (snd e) = None)
            [(PInf, None, Str ''Error processing flight F0''),
             (PInf, Some (east_at high_altitude), Float 90)]"
  by (simp add: demo_flights demo_rank_fail demo_rank_high digit_str_0 sort_by_distance_def
      has_observation_def)

text \<open>
  C1, amended. On the route "/", the listing is the entries of
  get_flights_with_distances, sorted by distance, one line each, in the sorted order.
  The sorted list is ascending by distance, holds the same entries, and keeps entries of
  equal distance in their original order; every entry without flight data has distance
  plus infinity; and the sorted list is the entries of finite distance, sorted, followed
  by the entries of distance plus infinity in their original order.
\<close>

theorem ranked_sorted_stable:
  assumes "validate_location_params bi args = Inr (lon, lat, alt)"
    and "get_flights_with_distances gw lat lon alt 20000 = Inr aircraft_data"
  shows "get_aircraft bi gw args
           = (join [CHR 0x0A] (map (render_entry bi) (sort_by_distance aircraft_data)) @ prompt,
              200, text_plain)
    \<and> sorted (map fst (sort_by_distance aircraft_data))
    \<and> mset (sort_by_distance aircraft_data) = mset aircraft_data
    \<and> (\<forall>k. filter (\<lambda>e. fst e = k) (sort_by_distance aircraft_data)
             = filter (\<lambda>e. fst e = k) aircraft_data)
    \<and> (\<forall>e\<in>set aircraft_data. fst (snd e) = None \<longrightarrow> fst e = PInf)
    \<and> sort_by_distance aircraft_data
        = sort_by_distance (filter (\<lambda>e. fst e \<noteq> PInf) aircraft_data)
          @ filter (\<lambda>e. fst e = PInf) aircraft_data"
proof -
  have inv: "\<And>e. e \<in> set aircraft_data \<Longrightarrow>
      has_observation e \<noteq> has_error_message e
      \<and> (has_error_message e \<longrightarrow> fst (snd e) = None \<and> fst e = PInf)"
  proof -
    fix e assume "e \<in> set aircraft_data"
    then obtain f where "rank_one gw lat lon alt f = Inr e"
      using ranked_entry [OF assms(2)] by blast
    then show "has_observation e \<noteq> has_error_message e
      \<and> (has_error_message e \<longrightarrow> fst (snd e) = None \<and> fst e = PInf)"
      by (rule rank_one_invariant)
  qed
  have "\<forall>e\<in>set (sort_by_distance aircraft_data). has_observation e \<noteq> has_error_message e"
    using inv by (simp add: sort_by_distance_def)
  then have page: "get_aircraft bi gw args
           = (join [CHR 0x0A] (map (render_entry bi) (sort_by_distance aircraft_data)) @ prompt,
              200, text_plain)"
    by (simp add: get_aircraft_def assms render_all)
  have none: "\<forall>e\<in>set aircraft_data. fst (snd e) = None \<longrightarrow> fst e = PInf"
  proof (intro ballI impI)
    fix e assume m: "e \<in> set aircraft_data" and "fst (snd e) = None"
    then have "\<not> has_observation e"
      by (simp add: has_observation_def)
    with inv [OF m] have "has_error_message e"
      by simp
    with inv [OF m] show "fst e = PInf"
      by simp
  qed
  have split: "sort_by_distance aircraft_data
        = sort_by_distance (filter (\<lambda>e. fst e \<noteq> PInf) aircraft_data)
          @ filter (\<lambda>e. fst e = PInf) aircraft_data"
    unfolding sort_by_distance_def by (rule sort_key_PInf_last)
  have stable: "\<forall>k. filter (\<lambda>e. fst e = k) (sort_by_distance aircraft_data)
             = filter (\<lambda>e. fst e = k) aircraft_data"
    by (simp add: sort_by_distance_def sort_key_stable)
  have "sorted (map fst (sort_by_distance aircraft_data))"
    by (simp add: sort_by_distance_def)
  moreover have "mset (sort_by_distance aircraft_data) = mset aircraft_data"
    by (simp add: sort_by_distance_def)
  ultimately show ?thesis
    using page stable none split by blast
qed

theorem ranked_sorted_stable_witness:
  "get_flights_with_distances (demo_gateway [2, 0, 1, 9, 2]) 0 0 0 20000
     = Inr [(Fin 609.6, Some (unknown_at 2000), Float 0),
            (PInf, None, Str ''Error processing flight F0''),
            (Fin 304.8, Some (unknown_at 1000), Float 0),
            (PInf, None, Str ''Error processing flight F9''),
            (Fin 609.6, Some (unknown_at 2000), Float 0)]
   \<and> sort_by_distance [(Fin 609.6, Some (unknown_at 2000), Float 0),
            (PInf, None, Str ''Error processing flight F0''),
            (Fin 304.8, Some (unknown_at 1000), Float 0),
            (PInf, None, Str ''Error processing flight F9''),
            (Fin 609.6, Some (unknown_at 2000), Float 0)]
     = [(Fin 304.8, Some (unknown_at 1000), Float 0),
        (Fin 609.6, Some (unknown_at 2000), Float 0),
        (Fin 609.6, Some (unknown_at 2000), Float 0),
        (PInf, None, Str ''Error processing flight F0''),
        (PInf, None, Str ''Error processing flight F9'')]
   \<and> get_aircraft demo_builtins (demo_gateway [2, 0, 1, 9, 2])
        (args_of [(''longitude'', ''0''), (''latitude'', ''0'')])
     = (join [CHR 0x0A]
          [aircraft_info demo_builtins (Fin 0.3048) (unknown_at 1000) 0,
           aircraft_info demo_builtins (Fin 0.6096) (unknown_at 2000) 0,
           aircraft_info demo_builtins (Fin 0.6096) (unknown_at 2000) 0,
           ''Error processing flight F0'',
           ''Error processing flight F9''] @ prompt,
        200, [(''Content-Type'', ''text/plain'')])"
proof -
  have v: "validate_location_params demo_builtins
       (args_of [(''longitude'', ''0''), (''latitude'', ''0'')]) = Inr (0, 0, 0)"
    by (simp add: validate_location_params_def py_float_def args_of_def demo_builtins_def)
  have h: "get_flights_with_distances (demo_gateway [2, 0, 1, 9, 2]) 0 0 0 20000
     = Inr [(Fin 609.6, Some (unknown_at 2000), Float 0),
            (PInf, None, Str ''Error processing flight F0''),
            (Fin 304.8, Some (unknown_at 1000), Float 0),
            (PInf, None, Str ''Error processing flight F9''),
            (Fin 609.6, Some (unknown_at 2000), Float 0)]"
    by (simp add: demo_flights demo_rank_fail demo_rank_ok digit_str_0 digit_str_9)
  have s: "sort_by_distance [(Fin 609.6, Some (unknown_at 2000), Float 0),
            (PInf, None, Str ''Error processing flight F0''),
            (Fin 304.8, Some (unknown_at 1000), Float 0),
            (PInf, None, Str ''Error processing flight F9''),
            (Fin 609.6, Some (unknown_at 2000), Float 0)]
     = [(Fin 304.8, Some (unknown_at 1000), Float 0),
        (Fin 609.6, Some (unknown_at 2000), Float 0),
        (Fin 609.6, Some (unknown_at 2000), Float 0),
        (PInf, None, Str ''Error processing flight F0''),
        (PInf, None, Str ''Error processing flight F9'')]"
    by (simp add: sort_by_distance_def)
  show ?thesis
    using ranked_sorted_stable [OF v h] h s
    by (simp add: text_plain_def)
qed

section \<open>The routes: proofs\<close>

text \<open>
  C7. On both routes, when longitude or latitude is missing or is no number, or altitude
  is given and is no number, the response is status 400 with the body
  "Error: Invalid longitude, latitude, or altitude values"; and when altitude is absent
  and the other two parse, validation succeeds with altitude 0.
\<close>

theorem invalid_params_400:
  "((args ''longitude'' = None
      \<or> (\<exists>s. args ''longitude'' = Some s \<and> float_of_str bi s = None)
      \<or> args ''latitude'' = None
      \<or> (\<exists>s. args ''latitude'' = Some s \<and> float_of_str bi s = None)
      \<or> (\<exists>s. args ''altitude'' = Some s \<and> float_of_str bi s = None))
     \<longrightarrow> get_aircraft bi gw args
           = (''Error: Invalid longitude, latitude, or altitude values'', 400, [])
         \<and> get_closest_aircraft bi gw args
           = (''Error: Invalid longitude, latitude, or altitude values'', 400, []))
   \<and> ((args ''altitude'' = None
        \<and> args ''longitude'' = Some lo \<and> float_of_str bi lo = Some x
        \<and> args ''latitude'' = Some la \<and> float_of_str bi la = Some y)
       \<longrightarrow> validate_location_params bi args = Inr (x, y, 0))"
proof (intro conjI impI)
  assume bad: "args ''longitude'' = None
      \<or> (\<exists>s. args ''longitude'' = Some s \<and> float_of_str bi s = None)
      \<or> args ''latitude'' = None
      \<or> (\<exists>s. args ''latitude'' = Some s \<and> float_of_str bi s = None)
      \<or> (\<exists>s. args ''altitude'' = Some s \<and> float_of_str bi s = None)"
  then have v: "validate_location_params bi args
                  = Inl (ValueError ''Invalid longitude, latitude, or altitude values'')"
    by (auto simp add: validate_location_params_def py_float_def split: option.splits)
  show "get_aircraft bi gw args
          = (''Error: Invalid longitude, latitude, or altitude values'', 400, [])"
    by (simp add: get_aircraft_def v)
  show "get_closest_aircraft bi gw args
          = (''Error: Invalid longitude, latitude, or altitude values'', 400, [])"
    by (simp add: get_closest_aircraft_def v)
next
  assume "args ''altitude'' = None
        \<and> args ''longitude'' = Some lo \<and> float_of_str bi lo = Some x
        \<and> args ''latitude'' = Some la \<and> float_of_str bi la = Some y"
  then show "validate_location_params bi args = Inr (x, y, 0)"
    by (simp add: validate_location_params_def py_float_def)
qed

theorem invalid_params_400_witness:
  "get_aircraft demo_builtins (demo_gateway [1])
       (args_of [(''longitude'', ''abc''), (''latitude'', ''0'')])
     = (''Error: Invalid longitude, latitude, or altitude values'', 400, [])
   \<and> get_closest_aircraft demo_builtins (demo_gateway [1])
       (args_of [(''longitude'', ''abc''), (''latitude'', ''0'')])
     = (''Error: Invalid longitude, latitude, or altitude values'', 400, [])
   \<and> validate_location_params demo_builtins
       (args_of [(''longitude'', ''0''), (''latitude'', ''51.5'')]) = Inr (0, 51.5, 0)"
proof -
  have bad: "\<exists>s. args_of [(''longitude'', ''abc''), (''latitude'', ''0'')] ''longitude'' = Some s
               \<and> float_of_str demo_builtins s = None"
    by (simp add: args_of_def demo_builtins_def)
  have good: "args_of [(''longitude'', ''0''), (''latitude'', ''51.5'')] ''altitude'' = None
        \<and> args_of [(''longitude'', ''0''), (''latitude'', ''51.5'')] ''longitude'' = Some ''0''
        \<and> float_of_str demo_builtins ''0'' = Some 0
        \<and> args_of [(''longitude'', ''0''), (''latitude'', ''51.5'')] ''latitude'' = Some ''51.5''
        \<and> float_of_str demo_builtins ''51.5'' = Some 51.5"
    by (simp add: args_of_def demo_builtins_def)
  show ?thesis
    using invalid_params_400 [of "args_of [(''longitude'', ''abc''), (''latitude'', ''0'')]"
        demo_builtins "demo_gateway [1]"] bad
      invalid_params_400 [of "args_of [(''longitude'', ''0''), (''latitude'', ''51.5'')]"
        demo_builtins "demo_gateway [1]" "''0''" 0 "''51.5''" "51.5"] good
    by blast
qed

text \<open>
  C10. On the route "/", with valid parameters and an empty list from the gateway, the
  response is status 200, plain text, and its body is the empty joined listing followed
  by the instructional text, that is the instructional text alone; it is not the
  not-found sentence of "/closest".
\<close>

theorem root_empty_listing:
  assumes "validate_location_params bi args = Inr (lon, lat, alt)"
    and "get_bounds_by_point gw lat lon 20000 = Inr b"
    and "get_flights gw b = Inr []"
  shows "get_aircraft bi gw args = (join [CHR 0x0A] [] @ prompt, 200, text_plain)
    \<and> get_aircraft bi gw args = (prompt, 200, text_plain)
    \<and> fst (get_aircraft bi gw args) \<noteq> ''No aircraft found within 10km of your location.''"
proof -
  have "get_flights_with_distances gw lat lon alt 20000 = Inr []"
    using flights_closed [OF assms(2,3), of alt] by simp
  then have r: "get_aircraft bi gw args = (prompt, 200, text_plain)"
    by (simp add: get_aircraft_def assms(1) sort_by_distance_def str_join_def)
  have "prompt \<noteq> ''No aircraft found within 10km of your location.''"
    by (simp add: prompt_def)
  with r show ?thesis by simp
qed

theorem root_empty_listing_witness:
  "get_aircraft demo_builtins (demo_gateway [])
       (args_of [(''longitude'', ''0''), (''latitude'', ''51.5'')])
     = (prompt, 200, [(''Content-Type'', ''text/plain'')])"
proof -
  have v: "validate_location_params demo_builtins
       (args_of [(''longitude'', ''0''), (''latitude'', ''51.5'')]) = Inr (0, 51.5, 0)"
    by (simp add: validate_location_params_def py_float_def args_of_def demo_builtins_def)
  have b: "get_bounds_by_point (demo_gateway []) 51.5 0 20000 = Inr ()"
    by (simp add: demo_gateway_def)
  have f: "get_flights (demo_gateway []) () = Inr []"
    by (simp add: demo_gateway_def)
  show ?thesis
    using root_empty_listing [OF v b f] by (simp add: text_plain_def)
qed

lemma collect_all_failed:
  "\<forall>f\<in>set fs. get_flight_data gw f = None
     \<Longrightarrow> \<exists>es. collect (map (rank_one gw lat lon alt) fs) = Inr es \<and> valid_aircraft_of es = []"
proof (induction fs)
  case Nil
  show ?case by simp
next
  case (Cons f fs)
  then obtain es where "collect (map (rank_one gw lat lon alt) fs) = Inr es"
    and "valid_aircraft_of es = []"
    by auto
  moreover from Cons.prems have "get_flight_data gw f = None"
    by simp
  ultimately show ?case
    by (simp add: rank_one_failed)
qed

lemma valid_observed:
  "valid_aircraft_of (filter has_observation es) = valid_aircraft_of es"
proof (induction es)
  case Nil
  show ?case by simp
next
  case (Cons e es)
  obtain d fdo t where e: "e = (d, fdo, t)"
    by (cases e) auto
  show ?case
    using Cons.IH by (cases fdo) (simp_all add: e has_observation_def)
qed

text \<open>
  C8. On the route "/closest", with valid parameters and a list from the gateway in which
  every detail fetch fails (the empty list included), the response is status 200, plain
  text, with the body "No aircraft found within 10km of your location."; and, whatever
  the list, the response is the one the route gives when the failing flights are removed
  from the list beforehand.
\<close>

theorem closest_none_resolved:
  assumes "validate_location_params bi args = Inr (lon, lat, alt)"
    and "get_bounds_by_point gw lat lon 10000 = Inr b"
    and "get_flights gw b = Inr fs"
  shows "((\<forall>f\<in>set fs. \<exists>e. get_flight_details gw f = Inl e) \<longrightarrow>
           get_closest_aircraft bi gw args
             = (''No aircraft found within 10km of your location.'', 200, text_plain))
    \<and> get_closest_aircraft bi (drop_failed gw) args = get_closest_aircraft bi gw args"
proof (intro conjI impI)
  have c: "get_flights_with_distances gw lat lon alt 10000
           = (case collect (map (rank_one gw lat lon alt) fs) of
                Inl e \<Rightarrow> Inl (Exception (''Error fetching flight data: '' @ exn_str e))
              | Inr es \<Rightarrow> Inr es)"
    by (rule flights_closed [OF assms(2,3)])
  {
    assume "\<forall>f\<in>set fs. \<exists>e. get_flight_details gw f = Inl e"
    then have "\<forall>f\<in>set fs. get_flight_data gw f = None"
      by (auto simp add: get_flight_data_def)
    then obtain es where "collect (map (rank_one gw lat lon alt) fs) = Inr es"
      and "valid_aircraft_of es = []"
      using collect_all_failed by blast
    then show "get_closest_aircraft bi gw args
             = (''No aircraft found within 10km of your location.'', 200, text_plain)"
      by (simp add: get_closest_aircraft_def assms(1) c)
  }
  have d: "get_flights_with_distances (drop_failed gw) lat lon alt 10000
        = (case get_flights_with_distances gw lat lon alt 10000 of
             Inl e \<Rightarrow> Inl e
           | Inr es \<Rightarrow> Inr (filter has_observation es))"
    by (rule flights_drop_failed [OF assms(2,3)])
  show "get_closest_aircraft bi (drop_failed gw) args = get_closest_aircraft bi gw args"
    by (simp add: get_closest_aircraft_def assms(1) d valid_observed split: sum.splits)
qed

theorem closest_none_resolved_witness:
  "get_closest_aircraft demo_builtins (demo_gateway [0, 9])
       (args_of [(''longitude'', ''0''), (''latitude'', ''51.5'')])
     = (''No aircraft found within 10km of your location.'', 200,
        [(''Content-Type'', ''text/plain'')])
   \<and> get_closest_aircraft demo_builtins (drop_failed (demo_gateway [0, 9]))
       (args_of [(''longitude'', ''0''), (''latitude'', ''51.5'')])
     = (''No aircraft found within 10km of your location.'', 200,
        [(''Content-Type'', ''text/plain'')])"
proof -
  have v: "validate_location_params demo_builtins
       (args_of [(''longitude'', ''0''), (''latitude'', ''51.5'')]) = Inr (0, 51.5, 0)"
    by (simp add: validate_location_params_def py_float_def args_of_def demo_builtins_def)
  have b: "get_bounds_by_point (demo_gateway [0, 9]) 51.5 0 10000 = Inr ()"
    by (simp add: demo_gateway_def)
  have f: "get_flights (demo_gateway [0, 9]) () = Inr [0, 9]"
    by (simp add: demo_gateway_def)
  have allfail: "\<forall>f\<in>set [0, 9]. \<exists>e. get_flight_details (demo_gateway [0, 9]) f = Inl e"
    by (simp add: demo_gateway_def)
  show ?thesis
    using closest_none_resolved [OF v b f] allfail by (simp add: text_plain_def)
qed

end
